theory Spec2Isabelle
  imports Main "HOL-Library.Word"
begin

section \<open>JavaScript values\<close>

text \<open>
  A JavaScript string is a sequence of UTF-16 code units. Source literals are written
  \<open>js ''...''\<close>.
\<close>

type_synonym jsstring = "16 word list"

definition js :: "string \<Rightarrow> jsstring" where
  "js s = map of_char s"

text \<open>
  The untyped payloads the adapters receive (\<open>params\<close> cast from
  \<open>Record<string, unknown>\<close>, parsed JSON bodies, thrown values). Numbers are restricted
  to integers (how the engine renders one outside the safe range is a parameter where a
  number is converted to a string); an object is the list of its own properties, the first
  binding of a key being the one that is read.
\<close>

datatype jsval =
    JUndefined
  | JNull
  | JBool bool
  | JNumber int
  | JString jsstring
  | JArray "jsval list"
  | JObject "(jsstring \<times> jsval) list"

text \<open>Truthiness, as \<open>!v\<close>, \<open>a || b\<close>, \<open>a && b\<close> and \<open>if (v)\<close> read it.\<close>

fun truthy :: "jsval \<Rightarrow> bool" where
  "truthy JUndefined = False"
| "truthy JNull = False"
| "truthy (JBool b) = b"
| "truthy (JNumber n) = (n \<noteq> 0)"
| "truthy (JString s) = (s \<noteq> [])"
| "truthy (JArray xs) = True"
| "truthy (JObject kvs) = True"

text \<open>An optional string field (\<open>string | undefined\<close>) in a boolean position.\<close>

fun truthy_str :: "jsstring option \<Rightarrow> bool" where
  "truthy_str None = False"
| "truthy_str (Some s) = (s \<noteq> [])"

text \<open>
  Errors are values. \<open>JsError name message\<close> is an instance of \<open>Error\<close> or of a built-in
  subclass (\<open>TypeError\<close>); \<open>AIGatewayError\<close> is the class of the error-handling
  utilities, with its \<open>code\<close>, optional \<open>statusCode\<close> and optional \<open>cause\<close>.
\<close>

datatype js_error =
    JsError (err_name: jsstring) (err_message: jsstring)
  | AIGatewayError (err_message: jsstring) (err_code: jsstring)
      (err_statusCode: "int option") (err_cause: "js_error option")

definition Error :: "jsstring \<Rightarrow> js_error" where
  "Error msg = JsError (js ''Error'') msg"

definition TypeError :: "jsstring \<Rightarrow> js_error" where
  "TypeError msg = JsError (js ''TypeError'') msg"

text \<open>
  Property read \<open>v.k\<close> for a key that no prototype defines (the source reads \<open>text\<close>,
  \<open>images\<close>, \<open>url\<close>, \<open>data\<close> and \<open>b64_json\<close>): a property of \<open>null\<close> or \<open>undefined\<close>
  is a \<open>TypeError\<close>, a primitive or an array has no such property.
\<close>

fun get_prop :: "jsval \<Rightarrow> string \<Rightarrow> js_error + jsval" where
  "get_prop JUndefined k = Inl (TypeError (js (''Cannot read properties of undefined (reading '' @ k @ '')'')))"
| "get_prop JNull k = Inl (TypeError (js (''Cannot read properties of null (reading '' @ k @ '')'')))"
| "get_prop (JObject kvs) k = Inr (case map_of kvs (js k) of Some v \<Rightarrow> v | None \<Rightarrow> JUndefined)"
| "get_prop v k = Inr JUndefined"

text \<open>Decimal digits of an integer.\<close>

fun digit_char :: "nat \<Rightarrow> 16 word" where
  "digit_char d = of_nat (48 + d)"

function string_of_nat :: "nat \<Rightarrow> jsstring" where
  "string_of_nat n = (if n < 10 then [digit_char n] else string_of_nat (n div 10) @ [digit_char (n mod 10)])"
  by pat_completeness auto
termination
  by (relation "measure (\<lambda>n. n)") auto

definition string_of_int :: "int \<Rightarrow> jsstring" where
  "string_of_int i = (if i < 0 then js ''-'' @ string_of_nat (nat (- i)) else string_of_nat (nat i))"

text \<open>
  \<open>Number::toString\<close> on an integer-valued number. A safe integer (of magnitude at most
  \<open>2^53 - 1\<close>) is rendered by its decimal digits. Beyond that the rendering is the
  engine's (shortest round-trip digits, exponent notation from \<open>10^21\<close> on); it is the
  parameter \<open>render\<close>.
\<close>

definition MAX_SAFE_INTEGER :: int where
  "MAX_SAFE_INTEGER = 9007199254740991"

definition number_to_string :: "(int \<Rightarrow> jsstring) \<Rightarrow> int \<Rightarrow> jsstring" where
  "number_to_string render n =
     (if - MAX_SAFE_INTEGER \<le> n \<and> n \<le> MAX_SAFE_INTEGER then string_of_int n else render n)"

fun join_with :: "jsstring \<Rightarrow> jsstring list \<Rightarrow> jsstring" where
  "join_with sep [] = []"
| "join_with sep [x] = x"
| "join_with sep (x # y # ys) = x @ sep @ join_with sep (y # ys)"

text \<open>
  \<open>String(v)\<close> and the conversion of a template literal \<open>`${v}`\<close>. An array joins its
  elements with commas (\<open>null\<close> and \<open>undefined\<close> elements as the empty string), converting
  each element in turn. A plain object is \<open>[object Object]\<close>; an object with an own
  \<open>toString\<close> property, which is no function here, cannot be converted: a \<open>TypeError\<close>.
\<close>

fun js_to_string :: "(int \<Rightarrow> jsstring) \<Rightarrow> jsval \<Rightarrow> js_error + jsstring"
  and js_elements_to_strings :: "(int \<Rightarrow> jsstring) \<Rightarrow> jsval list \<Rightarrow> js_error + jsstring list" where
  "js_to_string render JUndefined = Inr (js ''undefined'')"
| "js_to_string render JNull = Inr (js ''null'')"
| "js_to_string render (JBool b) = Inr (if b then js ''true'' else js ''false'')"
| "js_to_string render (JNumber n) = Inr (number_to_string render n)"
| "js_to_string render (JString s) = Inr s"
| "js_to_string render (JArray xs) =
     (case js_elements_to_strings render xs of
        Inl e \<Rightarrow> Inl e
      | Inr ss \<Rightarrow> Inr (join_with (js '','') ss))"
| "js_to_string render (JObject kvs) =
     (if map_of kvs (js ''toString'') = None then Inr (js ''[object Object]'')
      else Inl (TypeError (js ''Cannot convert object to primitive value'')))"
| "js_elements_to_strings render [] = Inr []"
| "js_elements_to_strings render (x # xs) =
     (case (if x = JUndefined \<or> x = JNull then Inr [] else js_to_string render x) of
        Inl e \<Rightarrow> Inl e
      | Inr s \<Rightarrow>
          (case js_elements_to_strings render xs of
             Inl e \<Rightarrow> Inl e
           | Inr ss \<Rightarrow> Inr (s # ss)))"

text \<open>
  \<open>String.prototype.trim\<close> removes WhiteSpace and LineTerminator code units from both
  ends.
\<close>

definition js_whitespace :: "16 word \<Rightarrow> bool" where
  "js_whitespace c \<longleftrightarrow>
     c = 0x9 \<or> c = 0xA \<or> c = 0xB \<or> c = 0xC \<or> c = 0xD \<or> c = 0x20 \<or> c = 0xA0 \<or>
     c = 0x1680 \<or> (0x2000 \<le> c \<and> c \<le> 0x200A) \<or> c = 0x2028 \<or> c = 0x2029 \<or>
     c = 0x202F \<or> c = 0x205F \<or> c = 0x3000 \<or> c = 0xFEFF"

definition trim :: "jsstring \<Rightarrow> jsstring" where
  "trim s = rev (dropWhile js_whitespace (rev (dropWhile js_whitespace s)))"

section \<open>Error handling utilities\<close>

text \<open>A value reaching a \<open>catch\<close>: an error object, or anything else that was thrown.\<close>

datatype thrown = ThrownError js_error | ThrownValue jsval

text \<open>
  \<open>wrapHandlerError\<close> never returns: the model gives the error it throws. The message
  of an \<open>Error\<close> instance is its \<open>message\<close>, of any other value \<open>String(error)\<close> (a
  conversion that throws ends the function with its own error); the cause is the value
  itself only when it is an \<open>Error\<close> instance.
\<close>

definition wrapHandlerError :: "(int \<Rightarrow> jsstring) \<Rightarrow> jsstring \<Rightarrow> thrown \<Rightarrow> js_error" where
  "wrapHandlerError render modelType error =
     (case error of
        ThrownError (AIGatewayError m c s cs) \<Rightarrow> AIGatewayError m c s cs
      | _ \<Rightarrow>
        (case (case error of ThrownError e \<Rightarrow> Inr (err_message e)
                           | ThrownValue v \<Rightarrow> js_to_string render v) of
           Inl e \<Rightarrow> e
         | Inr message \<Rightarrow>
             (let cause = (case error of ThrownError e \<Rightarrow> Some e | ThrownValue v \<Rightarrow> None)
              in AIGatewayError (modelType @ js '' handler failed: '' @ message)
                   (js ''HANDLER_ERROR'') None cause)))"

section \<open>Configuration\<close>

text \<open>
  The validated configuration, \<open>z.infer<typeof aiGatewayConfigSchema>\<close>.
\<close>

record AIGatewayConfig =
  AI_GATEWAY_API_KEY :: jsstring
  AI_GATEWAY_BASE_URL :: jsstring
  AI_GATEWAY_TEXT_SMALL_MODEL :: jsstring
  AI_GATEWAY_TEXT_LARGE_MODEL :: jsstring
  AI_GATEWAY_EMBEDDING_MODEL :: jsstring
  AI_GATEWAY_IMAGE_MODEL :: jsstring
  AI_GATEWAY_VISION_MODEL :: jsstring
  AI_GATEWAY_TRANSCRIPTION_MODEL :: jsstring
  AI_GATEWAY_TTS_MODEL :: jsstring
  AI_GATEWAY_TTS_VOICE :: jsstring

text \<open>
  A validation issue of the schema library: the key it is about and its kind. A failed
  parse throws the list of all issues, in the order of the schema's keys.
\<close>

datatype zod_code = invalid_type | too_small | invalid_string | invalid_enum_value

datatype zod_issue = ZodIssue (issue_path: string) (issue_code: zod_code)

text \<open>\<open>z.string().min(1, ...)\<close>: a missing value is an issue, and so is the empty string.\<close>

definition z_string_min1 :: "string \<Rightarrow> jsstring option \<Rightarrow> zod_issue list + jsstring" where
  "z_string_min1 key v =
     (case v of
        None \<Rightarrow> Inl [ZodIssue key invalid_type]
      | Some s \<Rightarrow> if length s < 1 then Inl [ZodIssue key too_small] else Inr s)"

text \<open>
  \<open>z.string().url().default(d)\<close>: a missing value is replaced by \<open>d\<close>, then the value is
  checked to be a URL. The check is the platform's URL parser, a parameter here.
\<close>

definition z_string_url_default ::
  "(jsstring \<Rightarrow> bool) \<Rightarrow> string \<Rightarrow> jsstring \<Rightarrow> jsstring option \<Rightarrow> zod_issue list + jsstring" where
  "z_string_url_default is_url key d v =
     (let s = (case v of None \<Rightarrow> d | Some s \<Rightarrow> s)
      in if is_url s then Inr s else Inl [ZodIssue key invalid_string])"

text \<open>\<open>z.string().default(d)\<close>.\<close>

definition z_string_default :: "jsstring \<Rightarrow> jsstring option \<Rightarrow> zod_issue list + jsstring" where
  "z_string_default d v = (case v of None \<Rightarrow> Inr d | Some s \<Rightarrow> Inr s)"

text \<open>\<open>z.enum([...]).default(d)\<close>.\<close>

definition z_enum_default ::
  "string \<Rightarrow> jsstring list \<Rightarrow> jsstring \<Rightarrow> jsstring option \<Rightarrow> zod_issue list + jsstring" where
  "z_enum_default key allowed d v =
     (let s = (case v of None \<Rightarrow> d | Some s \<Rightarrow> s)
      in if s \<in> set allowed then Inr s else Inl [ZodIssue key invalid_enum_value])"

definition tts_voices :: "jsstring list" where
  "tts_voices = [js ''alloy'', js ''echo'', js ''fable'', js ''onyx'', js ''nova'', js ''shimmer'']"

text \<open>The object literal \<open>parseConfig\<close> hands to the schema: ten optional strings.\<close>

record raw_config =
  raw_API_KEY :: "jsstring option"
  raw_BASE_URL :: "jsstring option"
  raw_TEXT_SMALL_MODEL :: "jsstring option"
  raw_TEXT_LARGE_MODEL :: "jsstring option"
  raw_EMBEDDING_MODEL :: "jsstring option"
  raw_IMAGE_MODEL :: "jsstring option"
  raw_VISION_MODEL :: "jsstring option"
  raw_TRANSCRIPTION_MODEL :: "jsstring option"
  raw_TTS_MODEL :: "jsstring option"
  raw_TTS_VOICE :: "jsstring option"

fun issues_of :: "zod_issue list + 'a \<Rightarrow> zod_issue list" where
  "issues_of (Inl is) = is"
| "issues_of (Inr v) = []"

fun value_of :: "zod_issue list + jsstring \<Rightarrow> jsstring" where
  "value_of (Inr v) = v"
| "value_of (Inl is) = []"

text \<open>
  \<open>aiGatewayConfigSchema.parse\<close>: every key is parsed; the result is the configuration
  when no key raised an issue, and the collected issues otherwise.
\<close>

definition aiGatewayConfigSchema_parse ::
  "(jsstring \<Rightarrow> bool) \<Rightarrow> raw_config \<Rightarrow> zod_issue list + AIGatewayConfig" where
  "aiGatewayConfigSchema_parse is_url raw =
     (let api_key = z_string_min1 ''AI_GATEWAY_API_KEY'' (raw_API_KEY raw);
          base_url = z_string_url_default is_url ''AI_GATEWAY_BASE_URL''
                       (js ''https://ai-gateway.vercel.sh/v1'') (raw_BASE_URL raw);
          text_small = z_string_default (js ''anthropic/claude-haiku-4.5'') (raw_TEXT_SMALL_MODEL raw);
          text_large = z_string_default (js ''anthropic/claude-opus-4.5'') (raw_TEXT_LARGE_MODEL raw);
          embedding = z_string_default (js ''openai/text-embedding-3-large'') (raw_EMBEDDING_MODEL raw);
          image = z_string_default (js ''bfl/flux-2-pro'') (raw_IMAGE_MODEL raw);
          vision = z_string_default (js ''xai/grok-2-vision'') (raw_VISION_MODEL raw);
          transcription = z_string_default (js ''openai/whisper-1'') (raw_TRANSCRIPTION_MODEL raw);
          tts = z_string_default (js ''openai/tts-1-hd'') (raw_TTS_MODEL raw);
          voice = z_enum_default ''AI_GATEWAY_TTS_VOICE'' tts_voices (js ''alloy'') (raw_TTS_VOICE raw);
          issues = issues_of api_key @ issues_of base_url @ issues_of text_small @
                   issues_of text_large @ issues_of embedding @ issues_of image @
                   issues_of vision @ issues_of transcription @ issues_of tts @ issues_of voice
      in if issues = [] then
           Inr \<lparr> AI_GATEWAY_API_KEY = value_of api_key,
                 AI_GATEWAY_BASE_URL = value_of base_url,
                 AI_GATEWAY_TEXT_SMALL_MODEL = value_of text_small,
                 AI_GATEWAY_TEXT_LARGE_MODEL = value_of text_large,
                 AI_GATEWAY_EMBEDDING_MODEL = value_of embedding,
                 AI_GATEWAY_IMAGE_MODEL = value_of image,
                 AI_GATEWAY_VISION_MODEL = value_of vision,
                 AI_GATEWAY_TRANSCRIPTION_MODEL = value_of transcription,
                 AI_GATEWAY_TTS_MODEL = value_of tts,
                 AI_GATEWAY_TTS_VOICE = value_of voice \<rparr>
         else Inl issues)"

text \<open>
  \<open>parseConfig\<close>: the environment is a record of optional strings indexed by name; ten
  names are read.
\<close>

definition parseConfig ::
  "(jsstring \<Rightarrow> bool) \<Rightarrow> (string \<Rightarrow> jsstring option) \<Rightarrow> zod_issue list + AIGatewayConfig" where
  "parseConfig is_url env =
     aiGatewayConfigSchema_parse is_url
       \<lparr> raw_API_KEY = env ''AI_GATEWAY_API_KEY'',
         raw_BASE_URL = env ''AI_GATEWAY_BASE_URL'',
         raw_TEXT_SMALL_MODEL = env ''AI_GATEWAY_TEXT_SMALL_MODEL'',
         raw_TEXT_LARGE_MODEL = env ''AI_GATEWAY_TEXT_LARGE_MODEL'',
         raw_EMBEDDING_MODEL = env ''AI_GATEWAY_EMBEDDING_MODEL'',
         raw_IMAGE_MODEL = env ''AI_GATEWAY_IMAGE_MODEL'',
         raw_VISION_MODEL = env ''AI_GATEWAY_VISION_MODEL'',
         raw_TRANSCRIPTION_MODEL = env ''AI_GATEWAY_TRANSCRIPTION_MODEL'',
         raw_TTS_MODEL = env ''AI_GATEWAY_TTS_MODEL'',
         raw_TTS_VOICE = env ''AI_GATEWAY_TTS_VOICE'' \<rparr>"

section \<open>Gateway client cache\<close>

text \<open>
  The object \<open>createOpenAICompatible\<close> returns. Each construction yields a new object;
  its identity is the reference \<open>ref\<close>, taken from a counter of the objects constructed
  so far.
\<close>

record gateway_client =
  ref :: nat
  client_name :: jsstring
  baseURL :: jsstring
  headers :: "(jsstring \<times> jsstring) list"

text \<open>The two module-level variables, and the allocation counter.\<close>

record gateway_state =
  gatewayInstance :: "gateway_client option"
  currentConfig :: "AIGatewayConfig option"
  next_ref :: nat

definition initial_gateway_state :: gateway_state where
  "initial_gateway_state = \<lparr> gatewayInstance = None, currentConfig = None, next_ref = 0 \<rparr>"

definition createOpenAICompatible ::
  "jsstring \<Rightarrow> jsstring \<Rightarrow> (jsstring \<times> jsstring) list \<Rightarrow> nat \<Rightarrow> gateway_client" where
  "createOpenAICompatible nm url hs r = \<lparr> ref = r, client_name = nm, baseURL = url, headers = hs \<rparr>"

definition createGatewayClient :: "AIGatewayConfig \<Rightarrow> gateway_state \<Rightarrow> gateway_client \<times> gateway_state" where
  "createGatewayClient config st =
     (case (gatewayInstance st, currentConfig st) of
        (Some inst, Some cur) \<Rightarrow>
          if AI_GATEWAY_API_KEY cur = AI_GATEWAY_API_KEY config \<and>
             AI_GATEWAY_BASE_URL cur = AI_GATEWAY_BASE_URL config
          then (inst, st)
          else
            (let inst' = createOpenAICompatible (js ''vercel-ai-gateway'') (AI_GATEWAY_BASE_URL config)
                           [(js ''Authorization'', js ''Bearer '' @ AI_GATEWAY_API_KEY config)] (next_ref st)
             in (inst', \<lparr> gatewayInstance = Some inst', currentConfig = Some config,
                          next_ref = Suc (next_ref st) \<rparr>))
      | _ \<Rightarrow>
          (let inst' = createOpenAICompatible (js ''vercel-ai-gateway'') (AI_GATEWAY_BASE_URL config)
                         [(js ''Authorization'', js ''Bearer '' @ AI_GATEWAY_API_KEY config)] (next_ref st)
           in (inst', \<lparr> gatewayInstance = Some inst', currentConfig = Some config,
                        next_ref = Suc (next_ref st) \<rparr>)))"

definition clearGatewayCache :: "gateway_state \<Rightarrow> gateway_state" where
  "clearGatewayCache st = st \<lparr> gatewayInstance := None, currentConfig := None \<rparr>"

text \<open>A model resolved against a client: the client and the model id.\<close>

record gateway_model =
  provider :: gateway_client
  modelId :: jsstring


definition getEmbeddingModel :: "AIGatewayConfig \<Rightarrow> jsstring \<Rightarrow> gateway_state \<Rightarrow> gateway_model \<times> gateway_state" where
  "getEmbeddingModel config mid st =
     (let (gateway, st') = createGatewayClient config st
      in (\<lparr> provider = gateway, modelId = mid \<rparr>, st'))"

section \<open>Text generation handlers\<close>

text \<open>
  A per-chunk callback acts on the caller's world \<open>'w\<close>; awaiting it either fulfils or
  rejects with a reason \<open>'e\<close>.
\<close>

datatype 'e settled = Fulfilled | Rejected 'e

type_synonym ('w, 'e) callback = "jsstring \<Rightarrow> 'w \<Rightarrow> 'e settled \<times> 'w"

record token_usage =
  promptTokens :: nat
  completionTokens :: nat
  totalTokens :: nat




text \<open>
  A fragment sequence handed to the consumer: the upstream one as it is, or the async
  generator that closes over the callback and the upstream iterator. A generator that has
  returned or thrown is \<open>Closed\<close>.
\<close>

datatype ('w, 'e) text_stream =
    Upstream "jsstring list"
  | WithCallback "('w, 'e) callback" "jsstring list"
  | Closed

record ('w, 'e) TextStreamResult =
  textStream :: "('w, 'e) text_stream"
  fullText :: jsstring
  usage :: "token_usage option"
  finishReason :: jsstring

datatype ('w, 'e) text_result = Text jsstring | Stream "('w, 'e) TextStreamResult"










section \<open>Tokenizer handlers\<close>

text \<open>
  The tokenizer library is a parameter: an encoding is its pair of \<open>encode\<close> and \<open>decode\<close>,
  \<open>encodingForModel\<close> throws for a model it does not know.
\<close>

record Tiktoken =
  tk_encode :: "jsstring \<Rightarrow> js_error + nat list"
  tk_decode :: "nat list \<Rightarrow> js_error + jsstring"

record tiktoken_lib =
  encodingForModel :: "jsstring \<Rightarrow> js_error + Tiktoken"
  getEncoding :: "jsstring \<Rightarrow> Tiktoken"

type_synonym tokenizers = "jsstring \<Rightarrow> Tiktoken option"

definition getTokenizer :: "tiktoken_lib \<Rightarrow> jsstring \<Rightarrow> tokenizers \<Rightarrow> Tiktoken \<times> tokenizers" where
  "getTokenizer lib modelType toks =
     (case toks modelType of
        Some t \<Rightarrow> (t, toks)
      | None \<Rightarrow>
          (case encodingForModel lib modelType of
             Inr encoding \<Rightarrow> (encoding, toks(modelType \<mapsto> encoding))
           | Inl e \<Rightarrow>
               (case toks (js ''cl100k_base'') of
                  Some t \<Rightarrow> (t, toks)
                | None \<Rightarrow>
                    (let t = getEncoding lib (js ''cl100k_base'')
                     in (t, toks(js ''cl100k_base'' \<mapsto> t))))))"

record TokenizeTextParams =
  tok_modelType :: jsstring
  tok_prompt :: jsstring

record DetokenizeTextParams =
  detok_modelType :: jsstring
  detok_tokens :: "nat list"

definition createTokenizerEncodeHandler ::
  "tiktoken_lib \<Rightarrow> TokenizeTextParams \<Rightarrow> tokenizers \<Rightarrow> (js_error + nat list) \<times> tokenizers" where
  "createTokenizerEncodeHandler lib tokenParams toks =
     (let (tokenizer, toks') = getTokenizer lib (tok_modelType tokenParams) toks
      in (tk_encode tokenizer (tok_prompt tokenParams), toks'))"

definition createTokenizerDecodeHandler ::
  "tiktoken_lib \<Rightarrow> DetokenizeTextParams \<Rightarrow> tokenizers \<Rightarrow> (js_error + jsstring) \<times> tokenizers" where
  "createTokenizerDecodeHandler lib detokenParams toks =
     (let (tokenizer, toks') = getTokenizer lib (detok_modelType detokenParams) toks
      in (tk_decode tokenizer (detok_tokens detokenParams), toks'))"

section \<open>Text embedding handler\<close>

text \<open>
  The source holds two versions of \<open>createTextEmbeddingHandler\<close>, which differ in what
  they do with an empty text. Both take the parameters as they come (any value); the
  upstream \<open>embed\<close> call is a parameter. Embedding components have the abstract number
  type \<open>'n\<close>. Console logging is left out.
\<close>

text \<open>First version: an empty text gives a vector of 3072 zeros.\<close>

definition createTextEmbeddingHandler_zero ::
  "AIGatewayConfig \<Rightarrow> (gateway_model \<Rightarrow> jsstring \<Rightarrow> js_error + ('n::zero) list) \<Rightarrow> jsval \<Rightarrow>
   gateway_state \<Rightarrow> (js_error + 'n list) \<times> gateway_state" where
  "createTextEmbeddingHandler_zero config embedFn embedParams st =
     (if embedParams = JNull \<or> embedParams = JUndefined then
        (Inl (Error (js ''Text is required for embedding'')), st)
      else
        (case (case embedParams of JString s \<Rightarrow> Inr (JString s) | _ \<Rightarrow> get_prop embedParams ''text'') of
           Inl e \<Rightarrow> (Inl e, st)
         | Inr txt \<Rightarrow>
             if \<not> truthy txt then (Inr (replicate 3072 0), st)
             else
               (case txt of
                  JString s \<Rightarrow>
                    if length (trim s) = 0 then (Inr (replicate 3072 0), st)
                    else
                      (let (model, st') = getEmbeddingModel config (AI_GATEWAY_EMBEDDING_MODEL config) st
                       in (embedFn model s, st'))
                | _ \<Rightarrow> (Inl (TypeError (js ''text.trim is not a function'')), st))))"

text \<open>Second version: an empty text is an error.\<close>

definition createTextEmbeddingHandler_throw ::
  "AIGatewayConfig \<Rightarrow> (gateway_model \<Rightarrow> jsstring \<Rightarrow> js_error + 'n list) \<Rightarrow> jsval \<Rightarrow>
   gateway_state \<Rightarrow> (js_error + 'n list) \<times> gateway_state" where
  "createTextEmbeddingHandler_throw config embedFn embedParams st =
     (if embedParams = JNull \<or> embedParams = JUndefined then
        (Inl (Error (js ''Text is required for embedding'')), st)
      else
        (case (case embedParams of JString s \<Rightarrow> Inr (JString s) | _ \<Rightarrow> get_prop embedParams ''text'') of
           Inl e \<Rightarrow> (Inl e, st)
         | Inr txt \<Rightarrow>
             if \<not> truthy txt then (Inl (Error (js ''Text cannot be empty for embedding'')), st)
             else
               (case txt of
                  JString s \<Rightarrow>
                    if length (trim s) = 0 then
                      (Inl (Error (js ''Text cannot be empty for embedding'')), st)
                    else
                      (let (model, st') = getEmbeddingModel config (AI_GATEWAY_EMBEDDING_MODEL config) st
                       in (embedFn model s, st'))
                | _ \<Rightarrow> (Inl (TypeError (js ''text.trim is not a function'')), st))))"

section \<open>Image generation handlers\<close>

record ImageGenerationParams =
  img_prompt :: jsstring
  img_size :: "jsstring option"
  img_count :: "nat option"

text \<open>The uniform result record. At run time the field holds whatever the source put there.\<close>

record image_result =
  url :: jsval

text \<open>
  \<open>xs.map(f)\<close> on a value that should be an array: \<open>f\<close> may throw, which ends the map; a
  value that is no array has no \<open>map\<close>.
\<close>

fun map_result :: "('a \<Rightarrow> js_error + 'b) \<Rightarrow> 'a list \<Rightarrow> js_error + 'b list" where
  "map_result f [] = Inr []"
| "map_result f (x # xs) =
     (case f x of
        Inl e \<Rightarrow> Inl e
      | Inr y \<Rightarrow> (case map_result f xs of Inl e \<Rightarrow> Inl e | Inr ys \<Rightarrow> Inr (y # ys)))"

definition array_map :: "(jsval \<Rightarrow> js_error + 'b) \<Rightarrow> jsval \<Rightarrow> js_error + 'b list" where
  "array_map f v =
     (case v of
        JArray xs \<Rightarrow> map_result f xs
      | JUndefined \<Rightarrow> Inl (TypeError (js ''Cannot read properties of undefined (reading map)''))
      | JNull \<Rightarrow> Inl (TypeError (js ''Cannot read properties of null (reading map)''))
      | _ \<Rightarrow> Inl (TypeError (js ''map is not a function'')))"

subsection \<open>Primary gateway\<close>

record fetch_request =
  fetch_url :: jsstring
  fetch_method :: jsstring
  fetch_headers :: "(jsstring \<times> jsstring) list"
  fetch_body :: jsval

text \<open>
  A response: its \<open>ok\<close> flag, and what \<open>text()\<close> and \<open>json()\<close> resolve to. The request body
  is the value given to \<open>JSON.stringify\<close>.
\<close>

record fetch_response =
  resp_ok :: bool
  resp_text :: "js_error + jsstring"
  resp_json :: "js_error + jsval"

text \<open>The arrow function mapped over \<open>result.data\<close>.\<close>

definition image_of :: "(int \<Rightarrow> jsstring) \<Rightarrow> jsval \<Rightarrow> js_error + image_result" where
  "image_of render img =
     (case get_prop img ''b64_json'' of
        Inl e \<Rightarrow> Inl e
      | Inr b64 \<Rightarrow>
          if truthy b64 then
            (case js_to_string render b64 of
               Inl e \<Rightarrow> Inl e
             | Inr s \<Rightarrow> Inr \<lparr> url = JString (js ''data:image/png;base64,'' @ s) \<rparr>)
          else
            (case get_prop img ''url'' of
               Inl e \<Rightarrow> Inl e
             | Inr u \<Rightarrow> Inr \<lparr> url = (if truthy u then u else JString []) \<rparr>))"

text \<open>The request \<open>createImageHandler\<close> sends.\<close>

definition image_request :: "AIGatewayConfig \<Rightarrow> ImageGenerationParams \<Rightarrow> fetch_request" where
  "image_request config imageParams =
     (let size = (if truthy_str (img_size imageParams) then img_size imageParams else None)
      in \<lparr> fetch_url = AI_GATEWAY_BASE_URL config @ js ''/images/generations'',
           fetch_method = js ''POST'',
           fetch_headers = [(js ''Content-Type'', js ''application/json''),
                            (js ''Authorization'', js ''Bearer '' @ AI_GATEWAY_API_KEY config)],
           fetch_body = JObject
             [(js ''model'', JString (AI_GATEWAY_IMAGE_MODEL config)),
              (js ''prompt'', JString (img_prompt imageParams)),
              (js ''n'', JNumber (case img_count imageParams of
                                    Some c \<Rightarrow> if c \<noteq> 0 then int c else 1
                                  | None \<Rightarrow> 1)),
              (js ''size'', JString (case size of
                                       Some sz \<Rightarrow> if sz \<noteq> [] then sz else js ''1024x1024''
                                     | None \<Rightarrow> js ''1024x1024''))] \<rparr>)"

definition createImageHandler ::
  "(int \<Rightarrow> jsstring) \<Rightarrow> AIGatewayConfig \<Rightarrow> (fetch_request \<Rightarrow> js_error + fetch_response) \<Rightarrow>
   ImageGenerationParams \<Rightarrow> js_error + image_result list" where
  "createImageHandler render config fetch imageParams =
     (case fetch (image_request config imageParams) of
        Inl e \<Rightarrow> Inl e
      | Inr response \<Rightarrow>
          if \<not> resp_ok response then
            (case resp_text response of
               Inl e \<Rightarrow> Inl e
             | Inr error \<Rightarrow> Inl (Error (js ''Image generation failed: '' @ error)))
          else
            (case resp_json response of
               Inl e \<Rightarrow> Inl e
             | Inr result \<Rightarrow>
                 (case get_prop result ''data'' of
                    Inl e \<Rightarrow> Inl e
                  | Inr data \<Rightarrow> array_map (image_of render) data)))"

subsection \<open>Alternative provider (FAL)\<close>

text \<open>
  Modelled from the spec: the configuration schema with the alternative provider's settings
  is not among the sources (the schema there has the ten gateway settings only). The
  credential is an optional string, the two model ids are strings and the image preference
  is a boolean flag, as the handlers and the plugin read them.
\<close>

record FalConfig = AIGatewayConfig +
  FAL_API_KEY :: "jsstring option"
  FAL_IMAGE_MODEL :: jsstring
  FAL_VIDEO_MODEL :: jsstring
  FAL_PREFER_FOR_IMAGES :: bool

text \<open>
  \<open>createFalImageHandler\<close>. The provider's \<open>subscribe\<close> is a parameter, given the
  credentials set by \<open>initFalClient\<close>, the model and the image parameters (from which the
  source builds the request input: the prompt, the image size parsed from \<open>size\<close>, the
  number of images); it yields \<open>result.data\<close>.
\<close>

definition createFalImageHandler ::
  "FalConfig \<Rightarrow> (jsstring \<Rightarrow> jsstring \<Rightarrow> ImageGenerationParams \<Rightarrow> js_error + jsval) \<Rightarrow>
   ImageGenerationParams \<Rightarrow> js_error + image_result list" where
  "createFalImageHandler config subscribe imageParams =
     (case FAL_API_KEY config of
        None \<Rightarrow> Inl (Error (js ''FAL_API_KEY is required for FAL image generation''))
      | Some key \<Rightarrow>
          if key = [] then Inl (Error (js ''FAL_API_KEY is required for FAL image generation''))
          else
            (case subscribe key (FAL_IMAGE_MODEL config) imageParams of
               Inl e \<Rightarrow> Inl e
             | Inr data \<Rightarrow>
                 (case (if data = JUndefined \<or> data = JNull then Inr JUndefined
                        else get_prop data ''images'') of
                    Inl e \<Rightarrow> Inl e
                  | Inr nested \<Rightarrow>
                      (let images = (if truthy nested then nested else JArray [data])
                       in array_map
                            (\<lambda>img. case get_prop img ''url'' of
                                     Inl e \<Rightarrow> Inl e
                                   | Inr u \<Rightarrow> Inr \<lparr> url = u \<rparr>)
                            images))))"

section \<open>Plugin: the capability dispatch table\<close>

datatype ModelType =
    TEXT_SMALL | TEXT_LARGE | TEXT_COMPLETION | TEXT_REASONING_SMALL | TEXT_REASONING_LARGE
  | TEXT_EMBEDDING | OBJECT_SMALL | OBJECT_LARGE | IMAGE | IMAGE_DESCRIPTION | TRANSCRIPTION
  | TEXT_TO_SPEECH | TEXT_TOKENIZER_ENCODE | TEXT_TOKENIZER_DECODE | VIDEO

text \<open>
  A handler in the table is the closure a factory returned: the factory's name and the
  configuration it closed over.
\<close>

datatype handler_closure =
    TextSmallHandler FalConfig
  | TextLargeHandler FalConfig
  | TextCompletionHandler FalConfig
  | TextReasoningSmallHandler FalConfig
  | TextReasoningLargeHandler FalConfig
  | TextEmbeddingHandler FalConfig
  | ObjectSmallHandler FalConfig
  | ObjectLargeHandler FalConfig
  | ImageHandler FalConfig
  | FalImageHandler FalConfig
  | ImageDescriptionHandler FalConfig
  | TranscriptionHandler FalConfig
  | TextToSpeechHandler FalConfig
  | TokenizerEncodeHandler
  | TokenizerDecodeHandler
  | FalVideoHandler FalConfig

record ModelHandler =
  handler :: handler_closure
  provider_name :: jsstring
  priority :: nat

definition PLUGIN_NAME :: jsstring where
  "PLUGIN_NAME = js ''@ghostspeak/plugin-gateway-ghost''"

definition PRIORITY :: nat where
  "PRIORITY = 10"

definition registration :: "handler_closure \<Rightarrow> ModelHandler" where
  "registration h = \<lparr> handler = h, provider_name = PLUGIN_NAME, priority = PRIORITY \<rparr>"

text \<open>The table keeps the order in which the keys were added.\<close>

definition createModelHandlers :: "FalConfig \<Rightarrow> (ModelType \<times> ModelHandler) list" where
  "createModelHandlers config =
     (let handlers =
        [(TEXT_SMALL, registration (TextSmallHandler config)),
         (TEXT_LARGE, registration (TextLargeHandler config)),
         (TEXT_COMPLETION, registration (TextCompletionHandler config)),
         (TEXT_REASONING_SMALL, registration (TextReasoningSmallHandler config)),
         (TEXT_REASONING_LARGE, registration (TextReasoningLargeHandler config)),
         (TEXT_EMBEDDING, registration (TextEmbeddingHandler config)),
         (OBJECT_SMALL, registration (ObjectSmallHandler config)),
         (OBJECT_LARGE, registration (ObjectLargeHandler config)),
         (IMAGE, registration
            (if truthy_str (FAL_API_KEY config) \<and> FAL_PREFER_FOR_IMAGES config
             then FalImageHandler config else ImageHandler config)),
         (IMAGE_DESCRIPTION, registration (ImageDescriptionHandler config)),
         (TRANSCRIPTION, registration (TranscriptionHandler config)),
         (TEXT_TO_SPEECH, registration (TextToSpeechHandler config)),
         (TEXT_TOKENIZER_ENCODE, registration TokenizerEncodeHandler),
         (TEXT_TOKENIZER_DECODE, registration TokenizerDecodeHandler)]
      in if truthy_str (FAL_API_KEY config)
         then handlers @ [(VIDEO, registration (FalVideoHandler config))]
         else handlers)"

section \<open>Vocabulary of the properties\<close>

text \<open>
  The documented defaults (the README's table of environment variables), around a given
  API key.
\<close>

definition documented_defaults :: "jsstring \<Rightarrow> AIGatewayConfig" where
  "documented_defaults k =
     \<lparr> AI_GATEWAY_API_KEY = k,
       AI_GATEWAY_BASE_URL = js ''https://ai-gateway.vercel.sh/v1'',
       AI_GATEWAY_TEXT_SMALL_MODEL = js ''anthropic/claude-haiku-4.5'',
       AI_GATEWAY_TEXT_LARGE_MODEL = js ''anthropic/claude-opus-4.5'',
       AI_GATEWAY_EMBEDDING_MODEL = js ''openai/text-embedding-3-large'',
       AI_GATEWAY_IMAGE_MODEL = js ''bfl/flux-2-pro'',
       AI_GATEWAY_VISION_MODEL = js ''xai/grok-2-vision'',
       AI_GATEWAY_TRANSCRIPTION_MODEL = js ''openai/whisper-1'',
       AI_GATEWAY_TTS_MODEL = js ''openai/tts-1-hd'',
       AI_GATEWAY_TTS_VOICE = js ''alloy'' \<rparr>"

text \<open>Two configurations agree on the pair the cache is keyed by.\<close>

definition same_endpoint :: "AIGatewayConfig \<Rightarrow> AIGatewayConfig \<Rightarrow> bool" where
  "same_endpoint a b \<longleftrightarrow>
     AI_GATEWAY_API_KEY a = AI_GATEWAY_API_KEY b \<and> AI_GATEWAY_BASE_URL a = AI_GATEWAY_BASE_URL b"

text \<open>
  Any history of the cache: a sequence of calls to its two exported operations, with the
  clients the calls returned.
\<close>

datatype cache_op = GetClient AIGatewayConfig | ClearCache

fun run_ops :: "cache_op list \<Rightarrow> gateway_state \<Rightarrow> gateway_client list \<times> gateway_state" where
  "run_ops [] st = ([], st)"
| "run_ops (GetClient config # ops) st =
     (let (client, st') = createGatewayClient config st;
          (clients, st'') = run_ops ops st'
      in (client # clients, st''))"
| "run_ops (ClearCache # ops) st = run_ops ops (clearGatewayCache st)"

text \<open>The cached client, if any, was constructed before now.\<close>

definition cache_inv :: "gateway_state \<Rightarrow> bool" where
  "cache_inv st \<longleftrightarrow>
     (case gatewayInstance st of Some inst \<Rightarrow> ref inst < next_ref st | None \<Rightarrow> True)"

text \<open>Concrete configurations: the same API key, different base URLs.\<close>

definition config_a :: AIGatewayConfig where
  "config_a = documented_defaults (js ''key-a'')"

definition config_b :: AIGatewayConfig where
  "config_b = (documented_defaults (js ''key-a''))
     \<lparr> AI_GATEWAY_BASE_URL := js ''https://example.test/v1'' \<rparr>"

text \<open>
  Tokenizer lookups for other models, made between two calls: the cache they leave.
\<close>

definition other_lookups :: "tiktoken_lib \<Rightarrow> jsstring list \<Rightarrow> tokenizers \<Rightarrow> tokenizers" where
  "other_lookups lib ms toks = fold (\<lambda>m t. snd (getTokenizer lib m t)) ms toks"

text \<open>
  The model's encoding: the library's encoding for the identifier, or the default
  encoding when the library does not know the identifier.
\<close>

definition model_encoding :: "tiktoken_lib \<Rightarrow> jsstring \<Rightarrow> Tiktoken" where
  "model_encoding lib m =
     (case encodingForModel lib m of
        Inr encoding \<Rightarrow> encoding
      | Inl e \<Rightarrow> getEncoding lib (js ''cl100k_base''))"

text \<open>
  Every cached tokenizer is the encoding of the model it is cached for, and the only key
  the library does not know as a model is \<open>cl100k_base\<close>.
\<close>

definition cache_ok :: "tiktoken_lib \<Rightarrow> tokenizers \<Rightarrow> bool" where
  "cache_ok lib toks \<longleftrightarrow>
     (\<forall>k t. toks k = Some t \<longrightarrow>
        t = model_encoding lib k \<and> (isl (encodingForModel lib k) \<longrightarrow> k = js ''cl100k_base''))"

text \<open>A small tokenizer library: one token per code unit; only \<open>gpt-4\<close> is a known model.\<close>

definition toy_encoding :: Tiktoken where
  "toy_encoding =
     \<lparr> tk_encode = (\<lambda>s. Inr (map unat s)), tk_decode = (\<lambda>ts. Inr (map of_nat ts)) \<rparr>"

definition toy_lib :: tiktoken_lib where
  "toy_lib =
     \<lparr> encodingForModel = (\<lambda>m. if m = js ''gpt-4'' then Inr toy_encoding
                                else Inl (Error (js ''Unknown model''))),
       getEncoding = (\<lambda>n. toy_encoding) \<rparr>"

text \<open>
  A tokenizer library that knows no model and whose one encoding accepts every text but
  decodes a surrogate code unit as the replacement character \<open>U+FFFD\<close>.
\<close>

definition lossy_encoding :: Tiktoken where
  "lossy_encoding =
     \<lparr> tk_encode = (\<lambda>s. Inr (map unat s)),
       tk_decode = (\<lambda>ts. Inr (map (\<lambda>t. if 0xD800 \<le> t \<and> t \<le> 0xDFFF then 0xFFFD
                                        else of_nat t) ts)) \<rparr>"

definition lossy_lib :: tiktoken_lib where
  "lossy_lib =
     \<lparr> encodingForModel = (\<lambda>m. Inl (Error (js ''Unknown model''))),
       getEncoding = (\<lambda>n. lossy_encoding) \<rparr>"

text \<open>
  A configuration whose embedding model is not the default one, and an upstream that
  embeds into 1536 dimensions.
\<close>

definition config_small :: AIGatewayConfig where
  "config_small = config_a \<lparr> AI_GATEWAY_EMBEDDING_MODEL := js ''openai/text-embedding-3-small'' \<rparr>"

definition small_embed :: "gateway_model \<Rightarrow> jsstring \<Rightarrow> js_error + int list" where
  "small_embed model t = Inr (replicate 1536 1)"

text \<open>
  The embedding parameter carries the text \<open>t\<close>: it is the bare string \<open>t\<close>, or a record
  whose \<open>text\<close> field is \<open>t\<close>.
\<close>

fun carries_text :: "jsval \<Rightarrow> jsstring \<Rightarrow> bool" where
  "carries_text (JString s) t = (s = t)"
| "carries_text (JObject kvs) t = (map_of kvs (js ''text'') = Some (JString t))"
| "carries_text v t = False"

text \<open>
  The embedding parameter is neither \<open>null\<close> nor \<open>undefined\<close> nor a string, and has no
  \<open>text\<close>: a record without the field, a number, a boolean or an array.
\<close>

fun no_text :: "jsval \<Rightarrow> bool" where
  "no_text (JString s) = False"
| "no_text JNull = False"
| "no_text JUndefined = False"
| "no_text (JObject kvs) =
     (map_of kvs (js ''text'') = None \<or> map_of kvs (js ''text'') = Some JUndefined)"
| "no_text v = True"

text \<open>A configuration with the alternative provider's settings, for concrete inputs.\<close>

definition fal_config :: "jsstring option \<Rightarrow> bool \<Rightarrow> FalConfig" where
  "fal_config key prefer =
     AIGatewayConfig.extend config_a
       (FalConfig.fields key (js ''fal-ai/flux/dev'') (js ''fal-ai/minimax-video/image-to-video'')
          prefer)"

text \<open>The handler the table binds to a capability, if it has an entry for it.\<close>

definition handler_for ::
  "(ModelType \<times> ModelHandler) list \<Rightarrow> ModelType \<Rightarrow> handler_closure option" where
  "handler_for table t = map_option handler (map_of table t)"

text \<open>A response object of the alternative provider with the string \<open>u\<close> as its \<open>url\<close>.\<close>

fun has_url :: "jsval \<Rightarrow> jsstring \<Rightarrow> bool" where
  "has_url (JObject kvs) u = (map_of kvs (js ''url'') = Some (JString u))"
| "has_url v u = False"

text \<open>The \<open>images\<close> property of a response object.\<close>

definition images_field :: "jsval \<Rightarrow> jsval" where
  "images_field data =
     (case data of
        JObject kvs \<Rightarrow> (case map_of kvs (js ''images'') of Some v \<Rightarrow> v | None \<Rightarrow> JUndefined)
      | _ \<Rightarrow> JUndefined)"

definition image_params :: ImageGenerationParams where
  "image_params =
     \<lparr> img_prompt = js ''a red circle'', img_size = Some (js ''512x512''), img_count = Some 1 \<rparr>"

definition img :: "string \<Rightarrow> jsval" where
  "img u = JObject [(js ''url'', JString (js u))]"

text \<open>An optional string field of a response item: its value when present and non-empty.\<close>

definition str_field :: "(jsstring \<times> jsval) list \<Rightarrow> string \<Rightarrow> jsstring option" where
  "str_field kvs k =
     (case map_of kvs (js k) of
        Some (JString s) \<Rightarrow> if s \<noteq> [] then Some s else None
      | _ \<Rightarrow> None)"

text \<open>
  An item of the primary gateway's response as its type declares it: \<open>url\<close> and
  \<open>b64_json\<close> are strings where they are present.
\<close>

definition image_item :: "(jsstring \<times> jsval) list \<Rightarrow> bool" where
  "image_item kvs \<longleftrightarrow>
     (case map_of kvs (js ''b64_json'') of
        None \<Rightarrow> True | Some (JString s) \<Rightarrow> True | Some JUndefined \<Rightarrow> True | Some JNull \<Rightarrow> True
      | _ \<Rightarrow> False) \<and>
     (case map_of kvs (js ''url'') of
        None \<Rightarrow> True | Some (JString s) \<Rightarrow> True | Some JUndefined \<Rightarrow> True | Some JNull \<Rightarrow> True
      | _ \<Rightarrow> False)"

text \<open>
  The url the claim gives an item: the data-URL of its base64 data when it carries some,
  else its plain URL when it has one, else the empty string.
\<close>

definition expected_url :: "(jsstring \<times> jsval) list \<Rightarrow> jsstring" where
  "expected_url kvs =
     (case str_field kvs ''b64_json'' of
        Some b \<Rightarrow> js ''data:image/png;base64,'' @ b
      | None \<Rightarrow> (case str_field kvs ''url'' of Some u \<Rightarrow> u | None \<Rightarrow> []))"

text \<open>A successful response with three items: base64 data, a plain URL, neither.\<close>

definition image_response :: fetch_response where
  "image_response =
     \<lparr> resp_ok = True,
       resp_text = Inr [],
       resp_json = Inr (JObject [(js ''data'', JArray
         [JObject [(js ''b64_json'', JString (js ''QUJD''))],
          JObject [(js ''url'', JString (js ''https://img.test/1.png''))],
          JObject [(js ''revised_prompt'', JString (js ''a circle''))]])]) \<rparr>"










section \<open>Properties\<close>

subsection \<open>Error wrapping\<close>

text \<open>
  C8 (as amended). An error that is already an \<open>AIGatewayError\<close> is rethrown unchanged,
  with its own code. An \<open>Error\<close> instance of any other kind is rethrown as an
  \<open>AIGatewayError\<close> with code \<open>HANDLER_ERROR\<close>, no status code, the message
  \<open><label> handler failed: <original message>\<close> and the original error as cause. A
  thrown value that is not an \<open>Error\<close> instance is wrapped in the same way with
  \<open>String(value)\<close> as the original message, and has no cause; when \<open>String(value)\<close>
  itself throws, that error is what propagates.
\<close>

theorem wrapHandlerError_spec:
  "wrapHandlerError render label (ThrownError (AIGatewayError m c s cs)) = AIGatewayError m c s cs \<and>
   wrapHandlerError render label (ThrownError (JsError n msg)) =
     AIGatewayError (label @ js '' handler failed: '' @ msg) (js ''HANDLER_ERROR'') None
       (Some (JsError n msg)) \<and>
   (js_to_string render v = Inr str \<longrightarrow>
      wrapHandlerError render label (ThrownValue v) =
        AIGatewayError (label @ js '' handler failed: '' @ str) (js ''HANDLER_ERROR'') None None) \<and>
   (js_to_string render v = Inl e \<longrightarrow> wrapHandlerError render label (ThrownValue v) = e)"
  by (simp add: wrapHandlerError_def)

theorem wrapHandlerError_spec_witness:
  "wrapHandlerError string_of_int (js ''IMAGE'')
       (ThrownError (AIGatewayError (js ''denied'') (js ''AUTH'') (Some 401) None))
     = AIGatewayError (js ''denied'') (js ''AUTH'') (Some 401) None \<and>
   wrapHandlerError string_of_int (js ''IMAGE'') (ThrownError (JsError (js ''Error'') (js ''boom''))) =
     AIGatewayError (js ''IMAGE handler failed: boom'') (js ''HANDLER_ERROR'') None
       (Some (JsError (js ''Error'') (js ''boom''))) \<and>
   wrapHandlerError string_of_int (js ''IMAGE'') (ThrownValue (JNumber 429)) =
     AIGatewayError (js ''IMAGE handler failed: 429'') (js ''HANDLER_ERROR'') None None \<and>
   wrapHandlerError string_of_int (js ''IMAGE'') (ThrownValue (JObject [(js ''toString'', JNull)])) =
     TypeError (js ''Cannot convert object to primitive value'')"
proof -
  have r: "js_to_string string_of_int (JNumber 429) = Inr (js ''429'')"
    by (simp add: number_to_string_def MAX_SAFE_INTEGER_def string_of_int_def js_def)
  have t: "js_to_string string_of_int (JObject [(js ''toString'', JNull)])
             = Inl (TypeError (js ''Cannot convert object to primitive value''))"
    by simp
  show ?thesis
    using wrapHandlerError_spec [where render = string_of_int and label = "js ''IMAGE''"
        and m = "js ''denied''" and c = "js ''AUTH''" and s = "Some 401" and cs = None
        and n = "js ''Error''" and msg = "js ''boom''" and v = "JNumber 429" and str = "js ''429''"] r
      wrapHandlerError_spec [where render = string_of_int and label = "js ''IMAGE''"
        and v = "JObject [(js ''toString'', JNull)]"
        and e = "TypeError (js ''Cannot convert object to primitive value'')"] t
    by (simp add: js_def)
qed

text \<open>
  The claim as stated asks for the original error as the cause of every wrapped error. A
  thrown string is wrapped without a cause.
\<close>

theorem wrapHandlerError_cause_counterexample:
  "err_cause (wrapHandlerError string_of_int (js ''TEXT_SMALL'') (ThrownValue (JString (js ''boom''))))
     = None \<and>
   err_code (wrapHandlerError string_of_int (js ''TEXT_SMALL'') (ThrownValue (JString (js ''boom''))))
     = js ''HANDLER_ERROR''"
  by (simp add: wrapHandlerError_def)

subsection \<open>Configuration\<close>

lemma parse_missing_key:
  "raw_API_KEY raw = None \<or> raw_API_KEY raw = Some [] \<Longrightarrow>
   \<exists>is. aiGatewayConfigSchema_parse is_url raw = Inl is \<and>
     (ZodIssue ''AI_GATEWAY_API_KEY'' invalid_type \<in> set is \<or>
      ZodIssue ''AI_GATEWAY_API_KEY'' too_small \<in> set is)"
  by (auto simp: aiGatewayConfigSchema_parse_def z_string_min1_def Let_def)

lemma parse_bad_voice:
  "raw_TTS_VOICE raw = Some v \<Longrightarrow> v \<notin> set tts_voices \<Longrightarrow>
   \<exists>is. aiGatewayConfigSchema_parse is_url raw = Inl is \<and>
     ZodIssue ''AI_GATEWAY_TTS_VOICE'' invalid_enum_value \<in> set is"
  by (auto simp: aiGatewayConfigSchema_parse_def z_enum_default_def Let_def)

lemma alloy_voice: "js ''alloy'' \<in> set tts_voices"
  by (simp add: tts_voices_def)

lemma parse_defaults:
  "raw = \<lparr> raw_API_KEY = Some k, raw_BASE_URL = None, raw_TEXT_SMALL_MODEL = None,
           raw_TEXT_LARGE_MODEL = None, raw_EMBEDDING_MODEL = None, raw_IMAGE_MODEL = None,
           raw_VISION_MODEL = None, raw_TRANSCRIPTION_MODEL = None, raw_TTS_MODEL = None,
           raw_TTS_VOICE = None \<rparr> \<Longrightarrow> k \<noteq> [] \<Longrightarrow>
   is_url (js ''https://ai-gateway.vercel.sh/v1'') \<Longrightarrow>
   aiGatewayConfigSchema_parse is_url raw = Inr (documented_defaults k)"
  using alloy_voice
  by (simp add: aiGatewayConfigSchema_parse_def z_string_min1_def z_string_url_default_def
      z_string_default_def z_enum_default_def documented_defaults_def Let_def del: set_simps)

text \<open>
  C9. Configuration resolution fails whenever the API key is absent or empty. With a
  non-empty API key and none of the other nine settings present, the result is the
  documented defaults around that key (the default base URL passes the URL check it is
  put through). A TTS voice outside the six allowed values fails validation.
\<close>

theorem parseConfig_spec:
  "(env ''AI_GATEWAY_API_KEY'' = None \<or> env ''AI_GATEWAY_API_KEY'' = Some [] \<longrightarrow>
      (\<exists>is. parseConfig is_url env = Inl is \<and>
         (ZodIssue ''AI_GATEWAY_API_KEY'' invalid_type \<in> set is \<or>
          ZodIssue ''AI_GATEWAY_API_KEY'' too_small \<in> set is))) \<and>
   (env ''AI_GATEWAY_API_KEY'' = Some k \<and> k \<noteq> [] \<and>
    env ''AI_GATEWAY_BASE_URL'' = None \<and> env ''AI_GATEWAY_TEXT_SMALL_MODEL'' = None \<and>
    env ''AI_GATEWAY_TEXT_LARGE_MODEL'' = None \<and> env ''AI_GATEWAY_EMBEDDING_MODEL'' = None \<and>
    env ''AI_GATEWAY_IMAGE_MODEL'' = None \<and> env ''AI_GATEWAY_VISION_MODEL'' = None \<and>
    env ''AI_GATEWAY_TRANSCRIPTION_MODEL'' = None \<and> env ''AI_GATEWAY_TTS_MODEL'' = None \<and>
    env ''AI_GATEWAY_TTS_VOICE'' = None \<and> is_url (js ''https://ai-gateway.vercel.sh/v1'') \<longrightarrow>
      parseConfig is_url env = Inr (documented_defaults k)) \<and>
   (env ''AI_GATEWAY_TTS_VOICE'' = Some v \<and> v \<notin> set tts_voices \<longrightarrow>
      (\<exists>is. parseConfig is_url env = Inl is \<and>
         ZodIssue ''AI_GATEWAY_TTS_VOICE'' invalid_enum_value \<in> set is))"
proof (intro conjI impI)
  assume "env ''AI_GATEWAY_API_KEY'' = None \<or> env ''AI_GATEWAY_API_KEY'' = Some []"
  then show "\<exists>is. parseConfig is_url env = Inl is \<and>
         (ZodIssue ''AI_GATEWAY_API_KEY'' invalid_type \<in> set is \<or>
          ZodIssue ''AI_GATEWAY_API_KEY'' too_small \<in> set is)"
    unfolding parseConfig_def by (intro parse_missing_key) simp
next
  assume h: "env ''AI_GATEWAY_API_KEY'' = Some k \<and> k \<noteq> [] \<and>
    env ''AI_GATEWAY_BASE_URL'' = None \<and> env ''AI_GATEWAY_TEXT_SMALL_MODEL'' = None \<and>
    env ''AI_GATEWAY_TEXT_LARGE_MODEL'' = None \<and> env ''AI_GATEWAY_EMBEDDING_MODEL'' = None \<and>
    env ''AI_GATEWAY_IMAGE_MODEL'' = None \<and> env ''AI_GATEWAY_VISION_MODEL'' = None \<and>
    env ''AI_GATEWAY_TRANSCRIPTION_MODEL'' = None \<and> env ''AI_GATEWAY_TTS_MODEL'' = None \<and>
    env ''AI_GATEWAY_TTS_VOICE'' = None \<and> is_url (js ''https://ai-gateway.vercel.sh/v1'')"
  then show "parseConfig is_url env = Inr (documented_defaults k)"
    unfolding parseConfig_def by (intro parse_defaults) simp_all
next
  assume "env ''AI_GATEWAY_TTS_VOICE'' = Some v \<and> v \<notin> set tts_voices"
  then show "\<exists>is. parseConfig is_url env = Inl is \<and>
         ZodIssue ''AI_GATEWAY_TTS_VOICE'' invalid_enum_value \<in> set is"
    unfolding parseConfig_def by (intro parse_bad_voice [where v = v]) simp_all
qed

theorem parseConfig_spec_witness:
  "parseConfig (\<lambda>u. True) (\<lambda>k. None) = Inl [ZodIssue ''AI_GATEWAY_API_KEY'' invalid_type] \<and>
   parseConfig (\<lambda>u. True) [''AI_GATEWAY_API_KEY'' \<mapsto> []]
     = Inl [ZodIssue ''AI_GATEWAY_API_KEY'' too_small] \<and>
   parseConfig (\<lambda>u. True) [''AI_GATEWAY_API_KEY'' \<mapsto> js ''test-key'']
     = Inr (documented_defaults (js ''test-key'')) \<and>
   parseConfig (\<lambda>u. True)
       [''AI_GATEWAY_API_KEY'' \<mapsto> js ''test-key'', ''AI_GATEWAY_TTS_VOICE'' \<mapsto> js ''robot'']
     = Inl [ZodIssue ''AI_GATEWAY_TTS_VOICE'' invalid_enum_value]"
  using parseConfig_spec [of "\<lambda>k. None" "\<lambda>u. True" "js ''test-key''" "js ''robot''"]
        parseConfig_spec [of "[''AI_GATEWAY_API_KEY'' \<mapsto> []]" "\<lambda>u. True" "js ''test-key''" "js ''robot''"]
        parseConfig_spec [of "[''AI_GATEWAY_API_KEY'' \<mapsto> js ''test-key'']" "\<lambda>u. True"
          "js ''test-key''" "js ''robot''"]
        parseConfig_spec [of "[''AI_GATEWAY_API_KEY'' \<mapsto> js ''test-key'',
          ''AI_GATEWAY_TTS_VOICE'' \<mapsto> js ''robot'']" "\<lambda>u. True" "js ''test-key''" "js ''robot''"]
  by (simp add: parseConfig_def aiGatewayConfigSchema_parse_def z_string_min1_def
      z_string_url_default_def z_string_default_def z_enum_default_def documented_defaults_def
      tts_voices_def js_def Let_def)

subsection \<open>Gateway client cache\<close>

lemma create_cases:
  "createGatewayClient c st = (h, st') \<Longrightarrow>
   (\<exists>cur. gatewayInstance st = Some h \<and> currentConfig st = Some cur \<and> same_endpoint cur c \<and> st' = st) \<or>
   (ref h = next_ref st \<and> gatewayInstance st' = Some h \<and> currentConfig st' = Some c \<and>
    next_ref st' = Suc (next_ref st) \<and>
    \<not> (\<exists>inst cur. gatewayInstance st = Some inst \<and> currentConfig st = Some cur \<and> same_endpoint cur c))"
  by (auto simp: createGatewayClient_def createOpenAICompatible_def same_endpoint_def Let_def
      split: option.splits if_splits)

lemma create_after:
  "createGatewayClient c st = (h, st') \<Longrightarrow>
   gatewayInstance st' = Some h \<and> (\<exists>cur. currentConfig st' = Some cur \<and> same_endpoint cur c)"
  by (auto simp: createGatewayClient_def createOpenAICompatible_def same_endpoint_def Let_def
      split: option.splits if_splits)

lemma create_inv:
  "cache_inv st \<Longrightarrow> createGatewayClient c st = (h, st') \<Longrightarrow>
   cache_inv st' \<and> next_ref st \<le> next_ref st' \<and> ref h < next_ref st'"
  by (auto simp: createGatewayClient_def createOpenAICompatible_def cache_inv_def Let_def
      split: option.splits if_splits)

lemma clear_inv: "cache_inv (clearGatewayCache st) \<and> next_ref (clearGatewayCache st) = next_ref st"
  by (simp add: clearGatewayCache_def cache_inv_def)

lemma initial_inv: "cache_inv initial_gateway_state"
  by (simp add: cache_inv_def initial_gateway_state_def)

lemma run_ops_inv:
  "cache_inv st \<Longrightarrow> run_ops ops st = (hs, st') \<Longrightarrow>
   cache_inv st' \<and> next_ref st \<le> next_ref st' \<and> (\<forall>h\<in>set hs. ref h < next_ref st')"
proof (induction ops arbitrary: st hs st')
  case Nil
  then show ?case by simp
next
  case (Cons op ops)
  show ?case
  proof (cases op)
    case (GetClient c)
    obtain h st1 where c1: "createGatewayClient c st = (h, st1)" by (cases "createGatewayClient c st")
    obtain hs' st2 where r: "run_ops ops st1 = (hs', st2)" by (cases "run_ops ops st1")
    from Cons.prems GetClient c1 r have eq: "hs = h # hs'" "st' = st2" by auto
    from create_inv [OF Cons.prems(1) c1] have i1: "cache_inv st1" "next_ref st \<le> next_ref st1" "ref h < next_ref st1" by auto
    from Cons.IH [OF i1(1) r] have i2: "cache_inv st2" "next_ref st1 \<le> next_ref st2" "\<forall>h\<in>set hs'. ref h < next_ref st2" by auto
    show ?thesis using eq i1 i2 by auto
  next
    case ClearCache
    with Cons.prems have r: "run_ops ops (clearGatewayCache st) = (hs, st')" by simp
    from Cons.IH [OF _ r] clear_inv [of st] show ?thesis by auto
  qed
qed

lemma same_endpoint_trans: "same_endpoint a b \<Longrightarrow> same_endpoint b c \<Longrightarrow> same_endpoint a c"
  by (simp add: same_endpoint_def)

lemma same_endpoint_trans_neg: "same_endpoint a b \<Longrightarrow> \<not> same_endpoint b c \<Longrightarrow> \<not> same_endpoint a c"
  by (auto simp add: same_endpoint_def)

lemma two_calls_same:
  assumes "same_endpoint c1 c2" "createGatewayClient c1 st = (h1, st1)" "createGatewayClient c2 st1 = (h2, st2)"
  shows "h2 = h1 \<and> st2 = st1"
proof -
  from create_after [OF assms(2)] obtain cur where a: "gatewayInstance st1 = Some h1" "currentConfig st1 = Some cur" "same_endpoint cur c1" by auto
  have "same_endpoint cur c2" using a(3) assms(1) by (rule same_endpoint_trans)
  with create_cases [OF assms(3)] a show ?thesis by auto
qed

lemma two_calls_differ:
  assumes "\<not> same_endpoint c1 c2" "cache_inv st" "createGatewayClient c1 st = (h1, st1)" "createGatewayClient c2 st1 = (h2, st2)"
  shows "ref h2 \<noteq> ref h1 \<and> ref h2 = next_ref st1"
proof -
  from create_after [OF assms(3)] obtain cur where a: "gatewayInstance st1 = Some h1" "currentConfig st1 = Some cur" "same_endpoint cur c1" by auto
  have n: "\<not> same_endpoint cur c2" using a(3) assms(1) by (rule same_endpoint_trans_neg)
  from create_inv [OF assms(2,3)] have "ref h1 < next_ref st1" by simp
  moreover from create_cases [OF assms(4)] a n have "ref h2 = next_ref st1" by auto
  ultimately show ?thesis by simp
qed

lemma after_clear_fresh:
  assumes "createGatewayClient c (clearGatewayCache st) = (h, st')"
  shows "ref h = next_ref st \<and> next_ref st' = Suc (next_ref st) \<and> gatewayInstance st' = Some h"
  using create_cases [OF assms] by (auto simp: clearGatewayCache_def)

text \<open>
  C2. After any history of the cache: two consecutive calls whose configurations agree on
  API key and base URL return the same client; two consecutive calls whose configurations
  differ in either return clients of different identity; and the call that follows
  \<open>clearGatewayCache\<close> constructs a client, whose identity differs from that of every
  client returned before.
\<close>

theorem gateway_cache_spec:
  "(let (hs, st) = run_ops ops initial_gateway_state;
        (h1, st1) = createGatewayClient c1 st;
        (h2, st2) = createGatewayClient c2 st1;
        (h3, st3) = createGatewayClient c3 (clearGatewayCache st2)
    in (same_endpoint c1 c2 \<longrightarrow> h2 = h1) \<and>
       (\<not> same_endpoint c1 c2 \<longrightarrow> ref h2 \<noteq> ref h1) \<and>
       ref h3 = next_ref st2 \<and> next_ref st3 = Suc (next_ref st2) \<and>
       (\<forall>h \<in> set (hs @ [h1, h2]). ref h3 \<noteq> ref h))"
proof -
  obtain hs st where r: "run_ops ops initial_gateway_state = (hs, st)"
    by (cases "run_ops ops initial_gateway_state")
  obtain h1 st1 where a1: "createGatewayClient c1 st = (h1, st1)"
    by (cases "createGatewayClient c1 st")
  obtain h2 st2 where a2: "createGatewayClient c2 st1 = (h2, st2)"
    by (cases "createGatewayClient c2 st1")
  obtain h3 st3 where a3: "createGatewayClient c3 (clearGatewayCache st2) = (h3, st3)"
    by (cases "createGatewayClient c3 (clearGatewayCache st2)")
  from run_ops_inv [OF initial_inv r]
  have i0: "cache_inv st" "\<forall>h\<in>set hs. ref h < next_ref st" by auto
  from create_inv [OF i0(1) a1]
  have i1: "cache_inv st1" "next_ref st \<le> next_ref st1" "ref h1 < next_ref st1" by auto
  from create_inv [OF i1(1) a2]
  have i2: "cache_inv st2" "next_ref st1 \<le> next_ref st2" "ref h2 < next_ref st2" by auto
  from after_clear_fresh [OF a3]
  have f: "ref h3 = next_ref st2" "next_ref st3 = Suc (next_ref st2)" by auto
  have same: "same_endpoint c1 c2 \<longrightarrow> h2 = h1"
    using two_calls_same [OF _ a1 a2] by blast
  have diff: "\<not> same_endpoint c1 c2 \<longrightarrow> ref h2 \<noteq> ref h1"
    using two_calls_differ [OF _ i0(1) a1 a2] by blast
  have fresh: "\<forall>h \<in> set (hs @ [h1, h2]). ref h3 \<noteq> ref h"
  proof
    fix h assume "h \<in> set (hs @ [h1, h2])"
    then have "ref h < next_ref st2" using i0(2) i1 i2 by auto
    then show "ref h3 \<noteq> ref h" using f(1) by simp
  qed
  show ?thesis using same diff f fresh by (simp add: r a1 a2 a3)
qed

theorem gateway_cache_spec_witness:
  "fst (createGatewayClient config_a (snd (createGatewayClient config_a initial_gateway_state)))
     = fst (createGatewayClient config_a initial_gateway_state) \<and>
   ref (fst (createGatewayClient config_b (snd (createGatewayClient config_a initial_gateway_state))))
     \<noteq> ref (fst (createGatewayClient config_a initial_gateway_state)) \<and>
   ref (fst (createGatewayClient config_a (clearGatewayCache
          (snd (createGatewayClient config_a (snd (createGatewayClient config_a initial_gateway_state)))))))
     \<noteq> ref (fst (createGatewayClient config_a initial_gateway_state))"
  using gateway_cache_spec [of "[]" config_a config_a config_a]
        gateway_cache_spec [of "[]" config_a config_b config_a]
  by (simp add: config_a_def config_b_def documented_defaults_def createGatewayClient_def
      createOpenAICompatible_def clearGatewayCache_def initial_gateway_state_def same_endpoint_def
      js_def Let_def)

subsection \<open>Tokenizer\<close>

lemma cache_ok_empty: "cache_ok lib Map.empty"
  by (simp add: cache_ok_def)

lemma cache_okD:
  "cache_ok lib toks \<Longrightarrow> toks k = Some t \<Longrightarrow>
   t = model_encoding lib k \<and> (isl (encodingForModel lib k) \<longrightarrow> k = js ''cl100k_base'')"
  unfolding cache_ok_def by blast

lemma cache_ok_upd:
  "cache_ok lib toks \<Longrightarrow> t = model_encoding lib k \<Longrightarrow>
   (isl (encodingForModel lib k) \<longrightarrow> k = js ''cl100k_base'') \<Longrightarrow> cache_ok lib (toks(k \<mapsto> t))"
  unfolding cache_ok_def by simp

lemma getTokenizer_ok:
  assumes h: "isl (encodingForModel lib (js ''cl100k_base''))" and ok: "cache_ok lib toks"
  shows "fst (getTokenizer lib m toks) = model_encoding lib m \<and>
         cache_ok lib (snd (getTokenizer lib m toks)) \<and>
         snd (getTokenizer lib m toks)
           (if isl (encodingForModel lib m) then js ''cl100k_base'' else m) = Some (model_encoding lib m)"
proof (cases "toks m")
  case (Some t)
  from cache_okD [OF ok Some] have t: "t = model_encoding lib m"
    and k: "isl (encodingForModel lib m) \<longrightarrow> m = js ''cl100k_base''" by simp_all
  show ?thesis using Some t k ok by (simp add: getTokenizer_def)
next
  case None
  show ?thesis
  proof (cases "encodingForModel lib m")
    case (Inr enc)
    then have me: "model_encoding lib m = enc" by (simp add: model_encoding_def)
    have "cache_ok lib (toks(m \<mapsto> enc))"
      using ok me Inr by (intro cache_ok_upd) simp_all
    then show ?thesis using None Inr me by (simp add: getTokenizer_def)
  next
    case (Inl err)
    then have me: "model_encoding lib m = getEncoding lib (js ''cl100k_base'')"
      by (simp add: model_encoding_def)
    from h obtain err' where hc: "encodingForModel lib (js ''cl100k_base'') = Inl err'"
      by (cases "encodingForModel lib (js ''cl100k_base'')") simp_all
    then have mc: "model_encoding lib (js ''cl100k_base'') = getEncoding lib (js ''cl100k_base'')"
      by (simp add: model_encoding_def)
    show ?thesis
    proof (cases "toks (js ''cl100k_base'')")
      case (Some t)
      from cache_okD [OF ok Some] mc have "t = getEncoding lib (js ''cl100k_base'')" by simp
      then show ?thesis using None Inl Some me ok by (simp add: getTokenizer_def)
    next
      case n: None
      have "cache_ok lib (toks(js ''cl100k_base'' \<mapsto> getEncoding lib (js ''cl100k_base'')))"
        using ok mc by (intro cache_ok_upd) simp_all
      then show ?thesis using None Inl n me by (simp add: getTokenizer_def Let_def)
    qed
  qed
qed

lemma other_lookups_ok:
  assumes "isl (encodingForModel lib (js ''cl100k_base''))"
  shows "cache_ok lib toks \<Longrightarrow> cache_ok lib (other_lookups lib ms toks)"
  unfolding other_lookups_def
  by (induction ms arbitrary: toks) (simp_all add: getTokenizer_ok [OF assms])

text \<open>
  C3 (as amended). Let the library know \<open>cl100k_base\<close> as an encoding name only, not as a
  model, and let the tokenizer cache be what any earlier lookups left of the empty cache.
  Then the encode handler returns what the model's encoding (the library's encoding for
  the identifier, or the default encoding when the library does not know it) gives for the
  text, and the decode handler for the same identifier, after any later lookups, returns
  what that same encoding decodes the ids to; the encode call leaves that encoding in the
  cache, under the identifier or, for the fallback, under \<open>cl100k_base\<close>. The adapters
  add nothing to the library's
  own round trip: \<open>decode(encode(text))\<close> is the text exactly when the encoding itself
  returns it.
\<close>

theorem tokenizer_handlers_delegate:
  assumes "isl (encodingForModel lib (js ''cl100k_base''))"
      and "toks = other_lookups lib earlier Map.empty"
      and "toks1 = snd (createTokenizerEncodeHandler lib
                          \<lparr> tok_modelType = m, tok_prompt = content \<rparr> toks)"
      and "toks2 = other_lookups lib later toks1"
  shows "fst (createTokenizerEncodeHandler lib \<lparr> tok_modelType = m, tok_prompt = content \<rparr> toks)
           = tk_encode (model_encoding lib m) content \<and>
         fst (createTokenizerDecodeHandler lib \<lparr> detok_modelType = m, detok_tokens = ids \<rparr> toks2)
           = tk_decode (model_encoding lib m) ids \<and>
         toks1 (if isl (encodingForModel lib m) then js ''cl100k_base'' else m)
           = Some (model_encoding lib m)"
proof -
  have ok: "cache_ok lib toks"
    using assms(2) other_lookups_ok [OF assms(1) cache_ok_empty] by simp
  have e: "fst (getTokenizer lib m toks) = model_encoding lib m"
    "cache_ok lib (snd (getTokenizer lib m toks))"
    "snd (getTokenizer lib m toks)
       (if isl (encodingForModel lib m) then js ''cl100k_base'' else m) = Some (model_encoding lib m)"
    using getTokenizer_ok [OF assms(1) ok] by simp_all
  have s: "toks1 = snd (getTokenizer lib m toks)"
    using assms(3) by (simp add: createTokenizerEncodeHandler_def case_prod_beta)
  have ok2: "cache_ok lib toks2"
    using assms(4) s other_lookups_ok [OF assms(1) e(2)] by simp
  have d: "fst (getTokenizer lib m toks2) = model_encoding lib m"
    using getTokenizer_ok [OF assms(1) ok2] by simp
  show ?thesis using e(1) d e(3) s
    by (simp add: createTokenizerEncodeHandler_def createTokenizerDecodeHandler_def case_prod_beta)
qed


theorem tokenizer_handlers_delegate_witness:
  "fst (createTokenizerEncodeHandler toy_lib \<lparr> tok_modelType = js ''claude'', tok_prompt = js ''hi'' \<rparr>
          (other_lookups toy_lib [js ''gpt-4''] Map.empty)) = Inr [104, 105] \<and>
   fst (createTokenizerDecodeHandler toy_lib \<lparr> detok_modelType = js ''claude'', detok_tokens = [104, 105] \<rparr>
          (other_lookups toy_lib [js ''gpt-3.5-turbo'']
             (snd (createTokenizerEncodeHandler toy_lib
                     \<lparr> tok_modelType = js ''claude'', tok_prompt = js ''hi'' \<rparr>
                     (other_lookups toy_lib [js ''gpt-4''] Map.empty)))))
     = Inr (js ''hi'')"
proof -
  have h: "isl (encodingForModel toy_lib (js ''cl100k_base''))"
    by (simp add: toy_lib_def js_def)
  have m: "model_encoding toy_lib (js ''claude'') = toy_encoding"
    by (simp add: model_encoding_def toy_lib_def js_def)
  have e: "tk_encode toy_encoding (js ''hi'') = Inr [104, 105]"
    by (simp add: toy_encoding_def js_def)
  have d: "tk_decode toy_encoding [104, 105] = Inr (js ''hi'')"
    by (simp add: toy_encoding_def js_def)
  show ?thesis
    using tokenizer_handlers_delegate [OF h refl refl refl, where earlier = "[js ''gpt-4'']"
        and m = "js ''claude''" and content = "js ''hi''" and ids = "[104, 105]"
        and later = "[js ''gpt-3.5-turbo'']"] m e d
    by simp
qed

text \<open>
  The claim as stated promises the round trip for every text the encoding accepts. With an
  encoding that accepts a lone surrogate and decodes it as \<open>U+FFFD\<close>, the handlers return
  a different text.
\<close>

theorem tokenizer_roundtrip_counterexample:
  "fst (createTokenizerEncodeHandler lossy_lib \<lparr> tok_modelType = js ''gpt-4'', tok_prompt = [0xD83D] \<rparr>
          Map.empty) = Inr [55357] \<and>
   fst (createTokenizerDecodeHandler lossy_lib \<lparr> detok_modelType = js ''gpt-4'', detok_tokens = [55357] \<rparr>
          (snd (createTokenizerEncodeHandler lossy_lib
                  \<lparr> tok_modelType = js ''gpt-4'', tok_prompt = [0xD83D] \<rparr> Map.empty)))
     = Inr [0xFFFD]"
proof -
  have g1: "getTokenizer lossy_lib (js ''gpt-4'') Map.empty
              = (lossy_encoding, [js ''cl100k_base'' \<mapsto> lossy_encoding])"
    by (simp add: getTokenizer_def lossy_lib_def)
  have g2: "getTokenizer lossy_lib (js ''gpt-4'') [js ''cl100k_base'' \<mapsto> lossy_encoding]
              = (lossy_encoding, [js ''cl100k_base'' \<mapsto> lossy_encoding])"
    by (simp add: getTokenizer_def lossy_lib_def js_def)
  have e: "tk_encode lossy_encoding [0xD83D] = Inr [55357]"
    by (simp add: lossy_encoding_def)
  have d: "tk_decode lossy_encoding [55357] = Inr [0xFFFD]"
    by (simp add: lossy_encoding_def)
  show ?thesis
    by (simp add: createTokenizerEncodeHandler_def createTokenizerDecodeHandler_def g1 g2 e d)
qed

subsection \<open>Embedding\<close>

lemma dropWhile_all_iff: "(\<forall>x\<in>set (dropWhile P xs). P x) \<longleftrightarrow> (\<forall>x\<in>set xs. P x)"
proof
  assume h: "\<forall>x\<in>set (dropWhile P xs). P x"
  have "dropWhile P xs = []"
  proof (rule ccontr)
    assume ne: "dropWhile P xs \<noteq> []"
    then have "\<not> P (hd (dropWhile P xs))" by (rule hd_dropWhile)
    moreover have "hd (dropWhile P xs) \<in> set (dropWhile P xs)" using ne by simp
    ultimately show False using h by blast
  qed
  then show "\<forall>x\<in>set xs. P x" by (simp add: dropWhile_eq_Nil_conv)
next
  assume "\<forall>x\<in>set xs. P x"
  then show "\<forall>x\<in>set (dropWhile P xs). P x" by (meson set_dropWhileD)
qed

lemma trim_empty_iff: "trim s = [] \<longleftrightarrow> (\<forall>c\<in>set s. js_whitespace c)"
  by (simp add: trim_def dropWhile_eq_Nil_conv dropWhile_all_iff)

lemma zero_blank:
  "carries_text p s \<Longrightarrow> \<forall>c\<in>set s. js_whitespace c \<Longrightarrow>
   createTextEmbeddingHandler_zero config embedFn p st = (Inr (replicate 3072 0), st)"
  by (cases p) (auto simp: createTextEmbeddingHandler_zero_def trim_empty_iff)

lemma throw_blank:
  "carries_text p s \<Longrightarrow> \<forall>c\<in>set s. js_whitespace c \<Longrightarrow>
   createTextEmbeddingHandler_throw config embedFn p st
     = (Inl (Error (js ''Text cannot be empty for embedding'')), st)"
  by (cases p) (auto simp: createTextEmbeddingHandler_throw_def trim_empty_iff)

text \<open>
  C4 (as amended). For an empty or whitespace-only text, given as a bare string or as the
  \<open>text\<close> field of a record, each of the two versions of the embedding handler has one
  behaviour, whatever the configuration, the upstream embedding function and the state of
  the client cache, which it leaves untouched: the first version returns the vector of
  3072 zeros (a fixed length, not that of the configured model's embeddings), the second
  fails with the error \<open>Text cannot be empty for embedding\<close>.
\<close>

theorem embedding_empty_text_policy:
  assumes "carries_text p s" and "\<forall>c\<in>set s. js_whitespace c"
  shows "createTextEmbeddingHandler_zero config embedFn p st = (Inr (replicate 3072 0), st) \<and>
         createTextEmbeddingHandler_throw config embedFn p st
           = (Inl (Error (js ''Text cannot be empty for embedding'')), st)"
  using assms by (simp add: zero_blank throw_blank)

theorem embedding_empty_text_policy_witness:
  "createTextEmbeddingHandler_zero config_a (\<lambda>m t. Inr [1, 2, 3 :: int]) (JString (js '' ''))
       initial_gateway_state
     = (Inr (replicate 3072 0), initial_gateway_state) \<and>
   createTextEmbeddingHandler_throw config_a (\<lambda>m t. Inr [1, 2, 3 :: int])
       (JObject [(js ''text'', JString [])]) initial_gateway_state
     = (Inl (Error (js ''Text cannot be empty for embedding'')), initial_gateway_state)"
proof -
  have ws: "\<forall>c\<in>set (js '' ''). js_whitespace c" by (simp add: js_def js_whitespace_def)
  have c1: "carries_text (JString (js '' '')) (js '' '')" by simp
  have c2: "carries_text (JObject [(js ''text'', JString [])]) []" by simp
  have e: "\<forall>c\<in>set ([] :: jsstring). js_whitespace c" by simp
  show ?thesis
    using embedding_empty_text_policy [OF c1 ws, of config_a "\<lambda>m t. Inr [1, 2, 3 :: int]" initial_gateway_state]
          embedding_empty_text_policy [OF c2 e, of config_a "\<lambda>m t. Inr [1, 2, 3 :: int]" initial_gateway_state]
    by simp
qed


text \<open>
  The claim as stated asks for a zero vector of the configured embedding dimensionality
  and for one behaviour throughout. With another embedding model configured, whose
  embeddings have 1536 components, the first version still returns 3072 zeros; and on the
  same empty text the second version fails where the first returns a value.
\<close>

theorem embedding_empty_text_counterexample:
  "createTextEmbeddingHandler_zero config_small small_embed (JString []) initial_gateway_state
     = (Inr (replicate 3072 0), initial_gateway_state) \<and>
   fst (createTextEmbeddingHandler_zero config_small small_embed (JString (js ''hello''))
          initial_gateway_state) = Inr (replicate 1536 1) \<and>
   length (replicate 3072 (0::int)) \<noteq> length (replicate 1536 (1::int)) \<and>
   createTextEmbeddingHandler_throw config_small small_embed (JString []) initial_gateway_state
     = (Inl (Error (js ''Text cannot be empty for embedding'')), initial_gateway_state)"
  by (simp add: createTextEmbeddingHandler_zero_def createTextEmbeddingHandler_throw_def trim_def
      js_def js_whitespace_def getEmbeddingModel_def small_embed_def split: prod.splits)

text \<open>
  C5 (as amended). For \<open>null\<close> or \<open>undefined\<close> parameters both versions of the embedding
  handler fail with the error \<open>Text is required for embedding\<close>. For any other value that
  is not a string and has no \<open>text\<close> (a record lacking the field, a number, a boolean, an
  array) the text counts as empty: the second version fails with
  \<open>Text cannot be empty for embedding\<close>, the first returns the vector of 3072 zeros.
\<close>

theorem embedding_unresolvable_text:
  "(p = JNull \<or> p = JUndefined \<longrightarrow>
      createTextEmbeddingHandler_zero config embedFn p st
        = (Inl (Error (js ''Text is required for embedding'')), st) \<and>
      createTextEmbeddingHandler_throw config embedFn p st
        = (Inl (Error (js ''Text is required for embedding'')), st)) \<and>
   (no_text p \<longrightarrow>
      createTextEmbeddingHandler_zero config embedFn p st = (Inr (replicate 3072 0), st) \<and>
      createTextEmbeddingHandler_throw config embedFn p st
        = (Inl (Error (js ''Text cannot be empty for embedding'')), st))"
  by (cases p)
     (auto simp: createTextEmbeddingHandler_zero_def createTextEmbeddingHandler_throw_def)

theorem embedding_unresolvable_text_witness:
  "createTextEmbeddingHandler_zero config_a (\<lambda>m t. Inr [1, 2, 3 :: int]) JNull initial_gateway_state
     = (Inl (Error (js ''Text is required for embedding'')), initial_gateway_state) \<and>
   createTextEmbeddingHandler_throw config_a (\<lambda>m t. Inr [1, 2, 3 :: int])
       (JObject [(js ''prompt'', JString (js ''hello''))]) initial_gateway_state
     = (Inl (Error (js ''Text cannot be empty for embedding'')), initial_gateway_state) \<and>
   createTextEmbeddingHandler_zero config_a (\<lambda>m t. Inr [1, 2, 3 :: int]) (JNumber 7) initial_gateway_state
     = (Inr (replicate 3072 0), initial_gateway_state)"
  using embedding_unresolvable_text [of JNull config_a "\<lambda>m t. Inr [1, 2, 3 :: int]" initial_gateway_state]
        embedding_unresolvable_text [of "JObject [(js ''prompt'', JString (js ''hello''))]" config_a "\<lambda>m t. Inr [1, 2, 3 :: int]" initial_gateway_state]
        embedding_unresolvable_text [of "JNumber 7" config_a "\<lambda>m t. Inr [1, 2, 3 :: int]" initial_gateway_state]
  by (simp add: js_def)

text \<open>
  The claim as stated asks for an error on a record that lacks a text field. The first
  version returns the zero vector there.
\<close>

theorem embedding_missing_text_counterexample:
  "createTextEmbeddingHandler_zero config_a (\<lambda>m t. Inr [1, 2, 3 :: int])
       (JObject [(js ''prompt'', JString (js ''hello''))]) initial_gateway_state
     = (Inr (replicate 3072 0), initial_gateway_state)"
  by (simp add: createTextEmbeddingHandler_zero_def js_def)

subsection \<open>Capability dispatch table\<close>

lemma fal_config_sel: "FAL_API_KEY (fal_config k p) = k" "FAL_PREFER_FOR_IMAGES (fal_config k p) = p"
  "FAL_IMAGE_MODEL (fal_config k p) = js ''fal-ai/flux/dev''"
  by (simp_all add: fal_config_def AIGatewayConfig.extend_def FalConfig.fields_def)

text \<open>
  C6. In the table built from a configuration, the image capability is bound to the
  alternative provider's adapter exactly when the alternative provider's credential is
  present (a non-empty string) and the image preference flag is set, and to the primary
  gateway's adapter otherwise; the table has a video entry, bound to the alternative
  provider's video adapter, exactly when the credential is present; and no capability has
  two entries.
\<close>

theorem dispatch_table_spec:
  "(handler_for (createModelHandlers config) IMAGE = Some (FalImageHandler config)
      \<longleftrightarrow> truthy_str (FAL_API_KEY config) \<and> FAL_PREFER_FOR_IMAGES config) \<and>
   (handler_for (createModelHandlers config) IMAGE = Some (ImageHandler config)
      \<longleftrightarrow> \<not> (truthy_str (FAL_API_KEY config) \<and> FAL_PREFER_FOR_IMAGES config)) \<and>
   (VIDEO \<in> fst ` set (createModelHandlers config) \<longleftrightarrow> truthy_str (FAL_API_KEY config)) \<and>
   (handler_for (createModelHandlers config) VIDEO =
      (if truthy_str (FAL_API_KEY config) then Some (FalVideoHandler config) else None)) \<and>
   distinct (map fst (createModelHandlers config))"
  by (simp add: createModelHandlers_def handler_for_def registration_def Let_def)

theorem dispatch_table_spec_witness:
  "handler_for (createModelHandlers (fal_config (Some (js ''fal-key'')) True)) IMAGE
     = Some (FalImageHandler (fal_config (Some (js ''fal-key'')) True)) \<and>
   handler_for (createModelHandlers (fal_config (Some (js ''fal-key'')) False)) IMAGE
     = Some (ImageHandler (fal_config (Some (js ''fal-key'')) False)) \<and>
   handler_for (createModelHandlers (fal_config None True)) IMAGE
     = Some (ImageHandler (fal_config None True)) \<and>
   handler_for (createModelHandlers (fal_config None True)) VIDEO = None \<and>
   handler_for (createModelHandlers (fal_config (Some (js ''fal-key'')) False)) VIDEO
     = Some (FalVideoHandler (fal_config (Some (js ''fal-key'')) False))"
  using dispatch_table_spec [of "fal_config (Some (js ''fal-key'')) True"]
        dispatch_table_spec [of "fal_config (Some (js ''fal-key'')) False"]
        dispatch_table_spec [of "fal_config None True"]
  by (simp add: fal_config_sel js_def)


subsection \<open>Alternative provider's image adapter\<close>

lemma map_result_urls:
  "list_all2 has_url items urls \<Longrightarrow>
   map_result (\<lambda>img. case get_prop img ''url'' of Inl e \<Rightarrow> Inl e | Inr u \<Rightarrow> Inr \<lparr> url = u \<rparr>) items
     = Inr (map (\<lambda>u. \<lparr> url = JString u \<rparr>) urls)"
proof (induction items urls rule: list_all2_induct)
  case Nil
  then show ?case by simp
next
  case (Cons x xs y ys)
  from Cons.hyps(1) obtain kvs where "x = JObject kvs" "map_of kvs (js ''url'') = Some (JString y)"
    by (cases x) auto
  then show ?case using Cons.IH by simp
qed

text \<open>
  C7 (as amended). With the credential present and a successful upstream call: a response
  with a nested \<open>images\<close> list of objects with urls is returned as the list of their
  \<open>{url}\<close> records, in order; a response that is a single object with a url (and no
  \<open>images\<close>) is returned as the one-element list of its \<open>{url}\<close> record.
\<close>

theorem fal_image_normalization:
  assumes "FAL_API_KEY config = Some key" and "key \<noteq> []"
      and "subscribe key (FAL_IMAGE_MODEL config) imageParams = Inr data"
  shows "(images_field data = JArray items \<and> list_all2 has_url items urls \<longrightarrow>
            createFalImageHandler config subscribe imageParams
              = Inr (map (\<lambda>u. \<lparr> url = JString u \<rparr>) urls)) \<and>
         (\<not> truthy (images_field data) \<and> has_url data u \<longrightarrow>
            createFalImageHandler config subscribe imageParams = Inr [\<lparr> url = JString u \<rparr>])"
proof (intro conjI impI)
  assume h: "images_field data = JArray items \<and> list_all2 has_url items urls"
  then obtain kvs where d: "data = JObject kvs" "map_of kvs (js ''images'') = Some (JArray items)"
    by (cases data) (auto simp: images_field_def split: option.splits)
  show "createFalImageHandler config subscribe imageParams = Inr (map (\<lambda>u. \<lparr> url = JString u \<rparr>) urls)"
    using assms d h by (simp add: createFalImageHandler_def array_map_def map_result_urls)
next
  assume h: "\<not> truthy (images_field data) \<and> has_url data u"
  then obtain kvs where d: "data = JObject kvs" "map_of kvs (js ''url'') = Some (JString u)"
    by (cases data) auto
  from h d have "\<not> truthy (case map_of kvs (js ''images'') of Some v \<Rightarrow> v | None \<Rightarrow> JUndefined)"
    by (simp add: images_field_def)
  then show "createFalImageHandler config subscribe imageParams = Inr [\<lparr> url = JString u \<rparr>]"
    using assms d by (simp add: createFalImageHandler_def array_map_def)
qed

theorem fal_image_normalization_witness:
  "createFalImageHandler (fal_config (Some (js ''fal-key'')) True)
       (\<lambda>k m p. Inr (JObject [(js ''images'', JArray [img ''a'', img ''b''])])) image_params
     = Inr [\<lparr> url = JString (js ''a'') \<rparr>, \<lparr> url = JString (js ''b'') \<rparr>] \<and>
   createFalImageHandler (fal_config (Some (js ''fal-key'')) True)
       (\<lambda>k m p. Inr (img ''a'')) image_params
     = Inr [\<lparr> url = JString (js ''a'') \<rparr>]"
proof -
  have k: "FAL_API_KEY (fal_config (Some (js ''fal-key'')) True) = Some (js ''fal-key'')"
    "js ''fal-key'' \<noteq> []" by (simp_all add: fal_config_sel js_def)
  have s1: "(\<lambda>k m p. Inr (JObject [(js ''images'', JArray [img ''a'', img ''b''])]) :: js_error + jsval)
      (js ''fal-key'') (FAL_IMAGE_MODEL (fal_config (Some (js ''fal-key'')) True)) image_params
      = Inr (JObject [(js ''images'', JArray [img ''a'', img ''b''])])" by simp
  have s2: "(\<lambda>k m p. Inr (img ''a'') :: js_error + jsval)
      (js ''fal-key'') (FAL_IMAGE_MODEL (fal_config (Some (js ''fal-key'')) True)) image_params
      = Inr (img ''a'')" by simp
  show ?thesis
    using fal_image_normalization [OF k s1, where items = "[img ''a'', img ''b'']"
            and urls = "[js ''a'', js ''b'']" and u = "js ''a''"]
          fal_image_normalization [OF k s2, where items = "[]" and urls = "[]" and u = "js ''a''"]
    by (simp add: images_field_def img_def js_def)
qed

text \<open>
  The claim as stated also covers a response that is a top-level list. Such a list has no
  \<open>images\<close> property, so it is wrapped like a single object and read for a \<open>url\<close> it does
  not have: two images come back as one record without a url.
\<close>

theorem fal_top_level_list_counterexample:
  "createFalImageHandler (fal_config (Some (js ''fal-key'')) True)
       (\<lambda>k m p. Inr (JArray [img ''a'', img ''b''])) image_params
     = Inr [\<lparr> url = JUndefined \<rparr>]"
  by (simp add: createFalImageHandler_def array_map_def fal_config_sel js_def)

subsection \<open>Primary image adapter\<close>

lemma image_of_item:
  "image_item kvs \<Longrightarrow> image_of render (JObject kvs) = Inr \<lparr> url = JString (expected_url kvs) \<rparr>"
  by (auto simp: image_item_def image_of_def expected_url_def str_field_def
      split: option.splits jsval.splits)

lemma map_result_items:
  "list_all image_item items \<Longrightarrow>
   map_result (image_of render) (map JObject items)
     = Inr (map (\<lambda>kvs. \<lparr> url = JString (expected_url kvs) \<rparr>) items)"
  by (induction items) (simp_all add: image_of_item)

text \<open>
  C10. For a successful response of the primary gateway whose \<open>data\<close> is a list of items,
  the handler returns, without raising an error, one record per item in order: with the
  synthesized data-URL when the item carries base64 data, with the item's URL when it
  carries a plain URL instead, and with the empty string when it carries neither.
\<close>

theorem image_handler_urls:
  assumes "fetch (image_request config imageParams) = Inr response"
      and "resp_ok response"
      and "resp_json response = Inr (JObject body)"
      and "map_of body (js ''data'') = Some (JArray (map JObject items))"
      and "list_all image_item items"
  shows "createImageHandler render config fetch imageParams
           = Inr (map (\<lambda>kvs. \<lparr> url = JString (expected_url kvs) \<rparr>) items)"
  using assms by (simp add: createImageHandler_def array_map_def map_result_items)

theorem image_handler_urls_witness:
  "createImageHandler string_of_int config_a (\<lambda>req. Inr image_response) image_params
     = Inr [\<lparr> url = JString (js ''data:image/png;base64,QUJD'') \<rparr>,
            \<lparr> url = JString (js ''https://img.test/1.png'') \<rparr>,
            \<lparr> url = JString [] \<rparr>]"
proof -
  have f: "(\<lambda>req. Inr image_response :: js_error + fetch_response) (image_request config_a image_params)
             = Inr image_response" by simp
  have ok: "resp_ok image_response" by (simp add: image_response_def)
  have j: "resp_json image_response = Inr (JObject [(js ''data'', JArray (map JObject
         [[(js ''b64_json'', JString (js ''QUJD''))],
          [(js ''url'', JString (js ''https://img.test/1.png''))],
          [(js ''revised_prompt'', JString (js ''a circle''))]]))])"
    by (simp add: image_response_def)
  have d: "map_of [(js ''data'', JArray (map JObject
         [[(js ''b64_json'', JString (js ''QUJD''))],
          [(js ''url'', JString (js ''https://img.test/1.png''))],
          [(js ''revised_prompt'', JString (js ''a circle''))]]))] (js ''data'')
       = Some (JArray (map JObject
         [[(js ''b64_json'', JString (js ''QUJD''))],
          [(js ''url'', JString (js ''https://img.test/1.png''))],
          [(js ''revised_prompt'', JString (js ''a circle''))]]))" by simp
  have t: "list_all image_item
         [[(js ''b64_json'', JString (js ''QUJD''))],
          [(js ''url'', JString (js ''https://img.test/1.png''))],
          [(js ''revised_prompt'', JString (js ''a circle''))]]"
    by (simp add: image_item_def js_def)
  show ?thesis
    using image_handler_urls [OF f ok j d t, of string_of_int]
    by (simp add: expected_url_def str_field_def js_def)
qed


subsection \<open>Streaming text generation\<close>









end
